theory Spec2Isabelle
  imports Main "HOL-Library.Char_ord" "HOL-Library.List_Lexorder" "HOL-Library.Product_Lexorder"
begin

section \<open>The storage layer of the time tracker (server/storage.ts)\<close>

text \<open>
  The class \<open>DatabaseStorage\<close> is embedded by explicit state passing. The state is the
  content of the eight tables of shared/schema.ts, each a list of rows. A method that
  writes takes the database and returns the outcome together with the new database; a
  method that only reads returns the outcome. A rejected promise (\<open>throw new Error(msg)\<close>,
  or an error of the database) is the outcome \<open>Thrown msg\<close>; a resolved promise is
  \<open>Returned v\<close>.

  What lies outside storage.ts is taken as follows.
  \<^item> \<open>withDatabaseRetry\<close> (server/db.ts) runs its callback up to three times: an error whose
    message contains "permission" or "authentication" is thrown again at once, any other
    error after the third attempt. Every attempt of a method below that throws leaves the
    database as it was, so a repeated attempt throws the same error, and the wrapper is
    modelled by the single attempt.
  \<^item> \<open>gen_random_uuid()\<close> and \<open>new Date()\<close>/\<open>defaultNow()\<close> are arguments \<open>newId\<close> and
    \<open>now\<close> of the methods that insert or update; \<open>newId\<close> is an id no row of the table has.
  \<^item> The database checks what is written. The model has these checks, with the error
    they raise, for the time entries and for the role of a user (the types of the
    columns), and the actions of the foreign keys on a deletion. A reference to the
    \<open>users\<close> table is not checked, nor are the columns of the other inserts and updates;
    a statement that depends on such a check says so in its hypotheses.
  \<^item> A string is a list of characters, one \<open>char\<close> for each character.
  \<^item> A date is a string \<open>YYYY-MM-DD\<close>; the order of two such dates is the order of the
    strings. PostgreSQL also reads other spellings of a date, the model does not.
  \<^item> \<open>storageLog\<close> and \<open>console.log\<close> only print and are left out.
  \<^item> \<open>orderBy\<close> on text columns is taken with the byte-wise order of strings; the order of
    rows with equal keys, which SQL leaves open, is the one of the insertion sort.
\<close>

subsection \<open>Rows (shared/schema.ts)\<close>

type_synonym timestamp = nat
type_synonym date = string
type_synonym decimal = int

record user =
  u_id :: string
  u_email :: "string option"
  u_firstName :: "string option"
  u_lastName :: "string option"
  u_profileImageUrl :: "string option"
  u_role :: "string option"
  u_isActive :: "bool option"
  u_lastLoginAt :: "timestamp option"
  u_createdAt :: "timestamp option"
  u_updatedAt :: "timestamp option"

record project =
  p_id :: string
  p_name :: string
  p_projectNumber :: "string option"
  p_description :: "string option"
  p_color :: "string option"
  p_startDate :: "timestamp option"
  p_endDate :: "timestamp option"
  p_isEnterpriseWide :: bool
  p_userId :: string
  p_createdAt :: "timestamp option"
  p_updatedAt :: "timestamp option"

record task =
  t_id :: string
  t_projectId :: string
  t_name :: string
  t_description :: "string option"
  t_status :: string
  t_createdAt :: "timestamp option"
  t_updatedAt :: "timestamp option"

record timeEntry =
  te_id :: string
  te_userId :: string
  te_projectId :: string
  te_taskId :: "string option"
  te_description :: "string option"
  te_date :: date
  te_startTime :: string
  te_endTime :: string
  te_duration :: decimal
  te_createdAt :: "timestamp option"
  te_updatedAt :: "timestamp option"

record employee =
  e_id :: string
  e_employeeId :: string
  e_firstName :: string
  e_lastName :: string
  e_department :: string
  e_userId :: string
  e_createdAt :: "timestamp option"
  e_updatedAt :: "timestamp option"

record projectEmployee =
  pe_id :: string
  pe_projectId :: string
  pe_employeeId :: string
  pe_userId :: string
  pe_createdAt :: "timestamp option"

record organization =
  o_id :: string
  o_name :: string
  o_description :: "string option"
  o_userId :: string
  o_createdAt :: "timestamp option"
  o_updatedAt :: "timestamp option"

record department =
  d_id :: string
  d_name :: string
  d_organizationId :: string
  d_managerId :: "string option"
  d_description :: "string option"
  d_userId :: string
  d_createdAt :: "timestamp option"
  d_updatedAt :: "timestamp option"

text \<open>
  The insert types (\<open>createInsertSchema(...).omit({id, createdAt, updatedAt})\<close>): a column
  that is \<open>notNull\<close> without default is required, every other column is optional. The
  decimal column \<open>duration\<close> (precision 5, scale 2) is counted in hundredths of an hour.
\<close>

record insertProject =
  ip_name :: string
  ip_projectNumber :: "string option"
  ip_description :: "string option"
  ip_color :: "string option"
  ip_startDate :: "timestamp option"
  ip_endDate :: "timestamp option"
  ip_isEnterpriseWide :: "bool option"
  ip_userId :: string

record insertTask =
  it_projectId :: string
  it_name :: string
  it_description :: "string option"
  it_status :: "string option"

record insertTimeEntry =
  ite_userId :: string
  ite_projectId :: string
  ite_taskId :: "string option"
  ite_description :: "string option"
  ite_date :: date
  ite_startTime :: string
  ite_endTime :: string
  ite_duration :: decimal

text \<open>
  \<open>Partial<Insert...>\<close>: every key may be absent (\<open>None\<close>, the column keeps its value). A
  nullable column can also be set to \<open>null\<close>, which is \<open>Some None\<close>.
\<close>

record partialProject =
  pp_name :: "string option"
  pp_projectNumber :: "string option option"
  pp_description :: "string option option"
  pp_color :: "string option option"
  pp_startDate :: "timestamp option"
  pp_endDate :: "timestamp option"
  pp_isEnterpriseWide :: "bool option"
  pp_userId :: "string option"

record partialTask =
  pt_projectId :: "string option"
  pt_name :: "string option"
  pt_description :: "string option option"
  pt_status :: "string option"

record partialTimeEntry =
  pte_userId :: "string option"
  pte_projectId :: "string option"
  pte_taskId :: "string option"
  pte_description :: "string option option"
  pte_date :: "date option"
  pte_startTime :: "string option"
  pte_endTime :: "string option"
  pte_duration :: "decimal option"

record partialEmployee =
  pem_employeeId :: "string option"
  pem_firstName :: "string option"
  pem_lastName :: "string option"
  pem_department :: "string option"
  pem_userId :: "string option"

record partialOrganization =
  po_name :: "string option"
  po_description :: "string option option"
  po_userId :: "string option"

subsection \<open>The database and the outcome of a call\<close>

record db =
  users :: "user list"
  projects :: "project list"
  tasks :: "task list"
  timeEntries :: "timeEntry list"
  employees :: "employee list"
  projectEmployees :: "projectEmployee list"
  departments :: "department list"
  organizations :: "organization list"

datatype 'a outcome = Returned 'a | Thrown string

text \<open>\<open>.set({...patch, updatedAt: new Date()})\<close>: a key of the patch overrides the column.\<close>

definition orElse :: "'a option \<Rightarrow> 'a \<Rightarrow> 'a" where
  "orElse v old = (case v of None \<Rightarrow> old | Some x \<Rightarrow> x)"

definition setProject :: "partialProject \<Rightarrow> timestamp \<Rightarrow> project \<Rightarrow> project" where
  "setProject v now p =
     p\<lparr>p_name := orElse (pp_name v) (p_name p),
       p_projectNumber := orElse (pp_projectNumber v) (p_projectNumber p),
       p_description := orElse (pp_description v) (p_description p),
       p_color := orElse (pp_color v) (p_color p),
       p_startDate := (case pp_startDate v of None \<Rightarrow> p_startDate p | Some d \<Rightarrow> Some d),
       p_endDate := (case pp_endDate v of None \<Rightarrow> p_endDate p | Some d \<Rightarrow> Some d),
       p_isEnterpriseWide := orElse (pp_isEnterpriseWide v) (p_isEnterpriseWide p),
       p_userId := orElse (pp_userId v) (p_userId p),
       p_updatedAt := Some now\<rparr>"

definition setTask :: "partialTask \<Rightarrow> timestamp \<Rightarrow> task \<Rightarrow> task" where
  "setTask v now t =
     t\<lparr>t_projectId := orElse (pt_projectId v) (t_projectId t),
       t_name := orElse (pt_name v) (t_name t),
       t_description := orElse (pt_description v) (t_description t),
       t_status := orElse (pt_status v) (t_status t),
       t_updatedAt := Some now\<rparr>"

definition setTimeEntry :: "partialTimeEntry \<Rightarrow> timestamp \<Rightarrow> timeEntry \<Rightarrow> timeEntry" where
  "setTimeEntry v now e =
     e\<lparr>te_userId := orElse (pte_userId v) (te_userId e),
       te_projectId := orElse (pte_projectId v) (te_projectId e),
       te_taskId := (case pte_taskId v of None \<Rightarrow> te_taskId e | Some k \<Rightarrow> Some k),
       te_description := orElse (pte_description v) (te_description e),
       te_date := orElse (pte_date v) (te_date e),
       te_startTime := orElse (pte_startTime v) (te_startTime e),
       te_endTime := orElse (pte_endTime v) (te_endTime e),
       te_duration := orElse (pte_duration v) (te_duration e),
       te_updatedAt := Some now\<rparr>"

definition setEmployee :: "partialEmployee \<Rightarrow> timestamp \<Rightarrow> employee \<Rightarrow> employee" where
  "setEmployee v now e =
     e\<lparr>e_employeeId := orElse (pem_employeeId v) (e_employeeId e),
       e_firstName := orElse (pem_firstName v) (e_firstName e),
       e_lastName := orElse (pem_lastName v) (e_lastName e),
       e_department := orElse (pem_department v) (e_department e),
       e_userId := orElse (pem_userId v) (e_userId e),
       e_updatedAt := Some now\<rparr>"

definition setOrganization :: "partialOrganization \<Rightarrow> timestamp \<Rightarrow> organization \<Rightarrow> organization" where
  "setOrganization v now g =
     g\<lparr>o_name := orElse (po_name v) (o_name g),
       o_description := orElse (po_description v) (o_description g),
       o_userId := orElse (po_userId v) (o_userId g),
       o_updatedAt := Some now\<rparr>"

text \<open>\<open>.update(t).set(s).where(c).returning()\<close> and \<open>.delete(t).where(c)\<close> on a table.\<close>

definition updateWhere :: "('r \<Rightarrow> bool) \<Rightarrow> ('r \<Rightarrow> 'r) \<Rightarrow> 'r list \<Rightarrow> 'r list" where
  "updateWhere c s rows = map (\<lambda>r. if c r then s r else r) rows"

definition returning :: "('r \<Rightarrow> bool) \<Rightarrow> ('r \<Rightarrow> 'r) \<Rightarrow> 'r list \<Rightarrow> 'r list" where
  "returning c s rows = map s (filter c rows)"

definition deleteWhere :: "('r \<Rightarrow> bool) \<Rightarrow> 'r list \<Rightarrow> 'r list" where
  "deleteWhere c rows = filter (\<lambda>r. \<not> c r) rows"

text \<open>\<open>const [row] = ...\<close>: the first row of the result, \<open>undefined\<close> when there is none.\<close>

definition firstRow :: "'r list \<Rightarrow> 'r option" where
  "firstRow rows = (case rows of [] \<Rightarrow> None | r # _ \<Rightarrow> Some r)"

subsection \<open>What the columns accept\<close>

text \<open>
  PostgreSQL refuses a text value that holds the character NUL. A value assigned to a
  \<open>varchar(n)\<close> column may be longer than \<open>n\<close> characters only by spaces at its end, which
  are cut off. A \<open>decimal(5,2)\<close> is below 1000 in absolute value; the model counts it in
  hundredths. A date is a day of the calendar, written \<open>YYYY-MM-DD\<close>. Each check gives the
  message of the error, or \<open>None\<close>.
\<close>

definition plain :: "string \<Rightarrow> bool" where
  "plain v = (CHR 0x00 \<notin> set v)"

definition textError :: "string list \<Rightarrow> string option" where
  "textError vs = (if list_all plain vs then None
                   else Some ''invalid byte sequence for encoding \"UTF8\": 0x00'')"

fun showNat :: "nat \<Rightarrow> string" where
  "showNat n = (if n < 10 then [char_of (48 + n)]
                else showNat (n div 10) @ [char_of (48 + n mod 10)])"

declare showNat.simps [simp del]

definition fitsVarchar :: "nat \<Rightarrow> string \<Rightarrow> bool" where
  "fitsVarchar n v = (length v \<le> n \<or> list_all (\<lambda>c. c = CHR '' '') (drop n v))"

definition varcharError :: "nat \<Rightarrow> string option \<Rightarrow> string option" where
  "varcharError n v =
     (case v of
        None \<Rightarrow> None
      | Some x \<Rightarrow> if fitsVarchar n x then None
                  else Some (''value too long for type character varying('' @ showNat n @ '')''))"

definition decimalError :: "decimal option \<Rightarrow> string option" where
  "decimalError v =
     (case v of
        None \<Rightarrow> None
      | Some d \<Rightarrow> if - 99999 \<le> d \<and> d \<le> 99999 then None else Some ''numeric field overflow'')"

definition isDigit :: "char \<Rightarrow> bool" where
  "isDigit c = (c \<in> set ''0123456789'')"

definition number :: "string \<Rightarrow> nat" where
  "number v = foldl (\<lambda>n c. 10 * n + (of_char c - 48)) 0 v"

definition leapYear :: "nat \<Rightarrow> bool" where
  "leapYear y = (y mod 4 = 0 \<and> (y mod 400 = 0 \<or> 0 < y mod 100))"

definition daysInMonth :: "nat \<Rightarrow> nat \<Rightarrow> nat" where
  "daysInMonth y m = (if m = 2 then (if leapYear y then 29 else 28)
                      else if m \<in> set [4, 6, 9, 11] then 30 else 31)"

definition dateForm :: "string \<Rightarrow> bool" where
  "dateForm v = (length v = 10 \<and> v ! 4 = CHR ''-'' \<and> v ! 7 = CHR ''-''
                 \<and> list_all isDigit (take 4 v @ take 2 (drop 5 v) @ drop 8 v))"

definition isoDate :: "string \<Rightarrow> bool" where
  "isoDate v =
     (dateForm v \<and>
      (let y = number (take 4 v); m = number (take 2 (drop 5 v)); d = number (drop 8 v)
       in 1 \<le> y \<and> 1 \<le> m \<and> m \<le> 12 \<and> 1 \<le> d \<and> d \<le> daysInMonth y m))"

definition dateError :: "string option \<Rightarrow> string option" where
  "dateError v =
     (case v of
        None \<Rightarrow> None
      | Some x \<Rightarrow> if isoDate x then None
                  else if dateForm x
                  then Some (''date/time field value out of range: \"'' @ x @ ''\"'')
                  else Some (''invalid input syntax for type date: \"'' @ x @ ''\"''))"

definition firstError :: "string option list \<Rightarrow> string option" where
  "firstError es = (case filter (\<lambda>e. e \<noteq> None) es of [] \<Rightarrow> None | e # _ \<Rightarrow> e)"

subsection \<open>Users and the role of the caller\<close>

definition getUser :: "string \<Rightarrow> db \<Rightarrow> user option" where
  "getUser ident s = firstRow (filter (\<lambda>u. u_id u = ident) (users s))"

text \<open>
  Every method that consults the role starts with
  \<^verbatim>\<open>const user = await this.getUser(userId); const userRole = user?.role || 'employee';\<close>
  where \<open>||\<close> also replaces the empty string.
\<close>

definition roleOrEmployee :: "user option \<Rightarrow> string" where
  "roleOrEmployee user =
     (case user of
        None \<Rightarrow> ''employee''
      | Some u \<Rightarrow> (case u_role u of
                    None \<Rightarrow> ''employee''
                  | Some r \<Rightarrow> if r = [] then ''employee'' else r))"

definition userRole :: "string \<Rightarrow> db \<Rightarrow> string" where
  "userRole userId s = roleOrEmployee (getUser userId s)"

text \<open>
  \<open>updateUserRole\<close> sends the role to the column \<open>role varchar(50)\<close>; an error of the
  database is logged and thrown again.
\<close>

definition updateUserRole :: "string \<Rightarrow> string \<Rightarrow> timestamp \<Rightarrow> db \<Rightarrow> user option outcome \<times> db" where
  "updateUserRole userId role now s =
     (case firstError [textError [role], varcharError 50 (Some role)] of
        Some msg \<Rightarrow> (Thrown msg, s)
      | None \<Rightarrow>
          (let c = (\<lambda>u. u_id u = userId);
               st = (\<lambda>u. u\<lparr>u_role := Some (take 50 role), u_updatedAt := Some now\<rparr>)
           in (Returned (firstRow (returning c st (users s))),
               s\<lparr>users := updateWhere c st (users s)\<rparr>)))"

subsection \<open>Query helpers\<close>



definition orderByAsc :: "('r \<Rightarrow> 'k::linorder) \<Rightarrow> 'r list \<Rightarrow> 'r list" where
  "orderByAsc k rows = sort_key k rows"






subsection \<open>Project operations\<close>

definition getProjects :: "db \<Rightarrow> project list outcome" where
  "getProjects s = Returned (orderByAsc p_name (projects s))"


definition getProject :: "string \<Rightarrow> string \<Rightarrow> db \<Rightarrow> project option outcome" where
  "getProject ident userId s = Returned (firstRow (filter (\<lambda>p. p_id p = ident) (projects s)))"

text \<open>\<open>.insert(projects).values(project).returning()\<close> with the defaults of the schema.\<close>

definition insertedProject :: "insertProject \<Rightarrow> string \<Rightarrow> timestamp \<Rightarrow> project" where
  "insertedProject v newId now =
     \<lparr>p_id = newId, p_name = ip_name v, p_projectNumber = ip_projectNumber v,
      p_description = ip_description v,
      p_color = (case ip_color v of None \<Rightarrow> Some ''#1976D2'' | Some c \<Rightarrow> Some c),
      p_startDate = ip_startDate v, p_endDate = ip_endDate v,
      p_isEnterpriseWide = (case ip_isEnterpriseWide v of None \<Rightarrow> True | Some b \<Rightarrow> b),
      p_userId = ip_userId v, p_createdAt = Some now, p_updatedAt = Some now\<rparr>"

definition createProject ::
  "insertProject \<Rightarrow> string \<Rightarrow> string \<Rightarrow> timestamp \<Rightarrow> db \<Rightarrow> project outcome \<times> db" where
  "createProject project userId newId now s =
     (let role = userRole userId s in
      if role \<notin> set [''admin'', ''project_manager'']
      then (Thrown ''Insufficient permissions to create projects'', s)
      else (let newProject = insertedProject project newId now
            in (Returned newProject, s\<lparr>projects := projects s @ [newProject]\<rparr>)))"

definition updateProject ::
  "string \<Rightarrow> partialProject \<Rightarrow> string \<Rightarrow> timestamp \<Rightarrow> db \<Rightarrow> project option outcome \<times> db" where
  "updateProject ident project userId now s =
     (let role = userRole userId s in
      if role \<notin> set [''admin'', ''project_manager'']
      then (Thrown ''Insufficient permissions to update projects'', s)
      else (let c = (\<lambda>p. p_id p = ident);
                updatedProject = firstRow (returning c (setProject project now) (projects s))
            in (Returned updatedProject,
                s\<lparr>projects := updateWhere c (setProject project now) (projects s)\<rparr>)))"

text \<open>
  Deleting a project deletes, by \<open>onDelete: "cascade"\<close>, its tasks, its time entries and
  its assignments; the time entries of other projects that point to a deleted task lose
  the task (\<open>onDelete: "set null"\<close>).
\<close>

definition deleteProject :: "string \<Rightarrow> string \<Rightarrow> db \<Rightarrow> bool outcome \<times> db" where
  "deleteProject ident userId s =
     (let role = userRole userId s in
      if role \<notin> set [''admin'', ''project_manager'']
      then (Thrown ''Insufficient permissions to delete projects'', s)
      else (let c = (\<lambda>p. p_id p = ident);
                success = (0 < length (filter c (projects s)));
                gone = map t_id (filter (\<lambda>t. t_projectId t = ident) (tasks s))
            in if success
               then (Returned success,
                     s\<lparr>projects := deleteWhere c (projects s),
                       tasks := deleteWhere (\<lambda>t. t_projectId t = ident) (tasks s),
                       timeEntries :=
                         updateWhere (\<lambda>e. case te_taskId e of None \<Rightarrow> False | Some k \<Rightarrow> k \<in> set gone)
                           (\<lambda>e. e\<lparr>te_taskId := None\<rparr>)
                           (deleteWhere (\<lambda>e. te_projectId e = ident) (timeEntries s)),
                       projectEmployees :=
                         deleteWhere (\<lambda>a. pe_projectId a = ident) (projectEmployees s)\<rparr>)
               else (Returned success, s)))"

subsection \<open>Task operations\<close>

record taskWithProject = task +
  twp_project :: project


definition getTask :: "string \<Rightarrow> string \<Rightarrow> db \<Rightarrow> task option" where
  "getTask ident userId s = firstRow (filter (\<lambda>t. t_id t = ident) (tasks s))"

definition insertedTask :: "insertTask \<Rightarrow> string \<Rightarrow> timestamp \<Rightarrow> task" where
  "insertedTask v newId now =
     \<lparr>t_id = newId, t_projectId = it_projectId v, t_name = it_name v,
      t_description = it_description v,
      t_status = (case it_status v of None \<Rightarrow> ''active'' | Some x \<Rightarrow> x),
      t_createdAt = Some now, t_updatedAt = Some now\<rparr>"

text \<open>
  \<open>createTask(task, userId?)\<close>: the role is looked up inside \<open>if (userId) { ... }\<close>; after the
  block the row is inserted.
\<close>

definition createTask ::
  "insertTask \<Rightarrow> string option \<Rightarrow> string \<Rightarrow> timestamp \<Rightarrow> db \<Rightarrow> task outcome \<times> db" where
  "createTask task userId newId now s =
     (let refused = (case userId of
                       None \<Rightarrow> False
                     | Some u \<Rightarrow> u \<noteq> [] \<and> userRole u s \<notin> set [''admin'', ''project_manager''])
      in if refused
         then (Thrown ''Insufficient permissions to create tasks'', s)
         else (let newTask = insertedTask task newId now
               in (Returned newTask, s\<lparr>tasks := tasks s @ [newTask]\<rparr>)))"

definition updateTask ::
  "string \<Rightarrow> partialTask \<Rightarrow> string \<Rightarrow> timestamp \<Rightarrow> db \<Rightarrow> task option outcome \<times> db" where
  "updateTask ident taskData userId now s =
     (let role = userRole userId s in
      if role \<notin> set [''admin'', ''project_manager'']
      then (Thrown ''Insufficient permissions to update tasks'', s)
      else (case getTask ident userId s of
              None \<Rightarrow> (Returned None, s)
            | Some existingTask \<Rightarrow>
                (let c = (\<lambda>t. t_id t = ident);
                     updatedTask = firstRow (returning c (setTask taskData now) (tasks s))
                 in (Returned updatedTask,
                     s\<lparr>tasks := updateWhere c (setTask taskData now) (tasks s)\<rparr>))))"

definition deleteTask :: "string \<Rightarrow> string \<Rightarrow> db \<Rightarrow> bool outcome \<times> db" where
  "deleteTask ident userId s =
     (let role = userRole userId s in
      if role \<notin> set [''admin'', ''project_manager'']
      then (Thrown ''Insufficient permissions to delete tasks'', s)
      else (case getTask ident userId s of
              None \<Rightarrow> (Returned False, s)
            | Some existingTask \<Rightarrow>
                (let c = (\<lambda>t. t_id t = ident);
                     success = (0 < length (filter c (tasks s)))
                 in (Returned success,
                     s\<lparr>tasks := deleteWhere c (tasks s),
                       timeEntries := updateWhere (\<lambda>e. te_taskId e = Some ident)
                                        (\<lambda>e. e\<lparr>te_taskId := None\<rparr>) (timeEntries s)\<rparr>))))"


subsection \<open>Time entry operations\<close>

record timeEntryWithProject = timeEntry +
  tep_project :: project
  tep_task :: "task option"






text \<open>
  The values of a time entry that a statement sends, checked against the columns of
  \<open>time_entries\<close>: the texts, \<open>date\<close>, \<open>start_time varchar(5)\<close>, \<open>end_time varchar(5)\<close> and
  \<open>duration decimal(5,2)\<close>. The result has the values as they are stored.
\<close>

definition checkedTimeEntry :: "partialTimeEntry \<Rightarrow> partialTimeEntry outcome" where
  "checkedTimeEntry v =
     (case firstError
             [textError (concat [case_option [] (\<lambda>x. [x]) (pte_userId v),
                                 case_option [] (\<lambda>x. [x]) (pte_projectId v),
                                 case_option [] (\<lambda>x. [x]) (pte_taskId v),
                                 case_option [] (case_option [] (\<lambda>x. [x])) (pte_description v),
                                 case_option [] (\<lambda>x. [x]) (pte_date v),
                                 case_option [] (\<lambda>x. [x]) (pte_startTime v),
                                 case_option [] (\<lambda>x. [x]) (pte_endTime v)]),
              dateError (pte_date v),
              varcharError 5 (pte_startTime v),
              varcharError 5 (pte_endTime v),
              decimalError (pte_duration v)] of
        Some msg \<Rightarrow> Thrown msg
      | None \<Rightarrow> Returned (v\<lparr>pte_startTime := map_option (take 5) (pte_startTime v),
                            pte_endTime := map_option (take 5) (pte_endTime v)\<rparr>))"

text \<open>
  The foreign keys of \<open>time_entries\<close> to \<open>projects\<close> and \<open>tasks\<close>, for the columns a
  statement sets.
\<close>

definition timeEntryReferenceError :: "partialTimeEntry \<Rightarrow> db \<Rightarrow> string option" where
  "timeEntryReferenceError v s =
     firstError
       [case pte_projectId v of
          None \<Rightarrow> None
        | Some p \<Rightarrow> if p \<in> set (map p_id (projects s)) then None
                    else Some ''insert or update on table \"time_entries\" violates foreign key constraint \"time_entries_project_id_projects_id_fk\"'',
        case pte_taskId v of
          None \<Rightarrow> None
        | Some k \<Rightarrow> if k \<in> set (map t_id (tasks s)) then None
                    else Some ''insert or update on table \"time_entries\" violates foreign key constraint \"time_entries_task_id_tasks_id_fk\"'']"




text \<open>
  \<open>updateTimeEntry\<close>: the values are checked when the statement is sent, the foreign keys
  on the rows it changes.
\<close>

definition updateTimeEntry ::
  "string \<Rightarrow> partialTimeEntry \<Rightarrow> string \<Rightarrow> timestamp \<Rightarrow> db \<Rightarrow> timeEntry option outcome \<times> db" where
  "updateTimeEntry ident entry userId now s =
     (let role = userRole userId s;
          c = (if role \<notin> set [''admin'', ''project_manager'']
               then (\<lambda>e. te_id e = ident \<and> te_userId e = userId)
               else (\<lambda>e. te_id e = ident))
      in case checkedTimeEntry entry of
           Thrown msg \<Rightarrow> (Thrown msg, s)
         | Returned v \<Rightarrow>
             (case (if filter c (timeEntries s) = [] then None else timeEntryReferenceError v s) of
                Some msg \<Rightarrow> (Thrown msg, s)
              | None \<Rightarrow>
                  (let updatedEntry = firstRow (returning c (setTimeEntry v now) (timeEntries s))
                   in (Returned updatedEntry,
                       s\<lparr>timeEntries := updateWhere c (setTimeEntry v now) (timeEntries s)\<rparr>))))"

definition deleteTimeEntry :: "string \<Rightarrow> string \<Rightarrow> db \<Rightarrow> bool outcome \<times> db" where
  "deleteTimeEntry ident userId s =
     (let role = userRole userId s;
          c = (if role \<notin> set [''admin'', ''project_manager'']
               then (\<lambda>e. te_id e = ident \<and> te_userId e = userId)
               else (\<lambda>e. te_id e = ident));
          success = (0 < length (filter c (timeEntries s)))
      in (Returned success, s\<lparr>timeEntries := deleteWhere c (timeEntries s)\<rparr>))"

subsection \<open>Dashboard and reports\<close>











subsection \<open>Employee operations\<close>



definition updateEmployee ::
  "string \<Rightarrow> partialEmployee \<Rightarrow> string \<Rightarrow> timestamp \<Rightarrow> db \<Rightarrow> employee option outcome \<times> db" where
  "updateEmployee ident employeeData userId now s =
     (let role = userRole userId s in
      if role \<notin> set [''admin'', ''manager'']
      then (Thrown ''Insufficient permissions to update employee information'', s)
      else (let c = (\<lambda>e. e_id e = ident);
                updatedEmployee = firstRow (returning c (setEmployee employeeData now) (employees s))
            in (Returned updatedEmployee,
                s\<lparr>employees := updateWhere c (setEmployee employeeData now) (employees s)\<rparr>)))"

text \<open>
  An employee who is the manager of a department cannot be deleted
  (\<open>departments.manager_id\<close> references \<open>employees.id\<close> without action); the assignments of
  a deleted employee go with the row (\<open>onDelete: "cascade"\<close>).
\<close>

definition deleteEmployee :: "string \<Rightarrow> string \<Rightarrow> db \<Rightarrow> bool outcome \<times> db" where
  "deleteEmployee ident userId s =
     (let role = userRole userId s in
      if role \<noteq> ''admin''
      then (Thrown ''Insufficient permissions to delete employees'', s)
      else (let c = (\<lambda>e. e_id e = ident);
                success = (0 < length (filter c (employees s)))
            in if success \<and> filter (\<lambda>d. d_managerId d = Some ident) (departments s) \<noteq> []
               then (Thrown ''update or delete on table \"employees\" violates foreign key constraint \"departments_manager_id_employees_id_fk\" on table \"departments\"'', s)
               else if success
               then (Returned success,
                     s\<lparr>employees := deleteWhere c (employees s),
                       projectEmployees :=
                         deleteWhere (\<lambda>a. pe_employeeId a = ident) (projectEmployees s)\<rparr>)
               else (Returned success, s)))"

subsection \<open>Project access control operations\<close>

text \<open>
  \<open>assignEmployeesToProject\<close> inserts one row for each employee id; \<open>newId i\<close> is the key the
  database generates for the \<open>i\<close>-th of them.
\<close>

definition assignEmployeesToProject ::
  "string \<Rightarrow> string list \<Rightarrow> string \<Rightarrow> (nat \<Rightarrow> string) \<Rightarrow> timestamp \<Rightarrow> db \<Rightarrow> unit outcome \<times> db" where
  "assignEmployeesToProject projectId employeeIds userId newId now s =
     (let role = userRole userId s in
      if role \<notin> set [''admin'', ''project_manager'']
      then (Thrown ''Insufficient permissions to assign employees to projects'', s)
      else if length (take 1 (filter (\<lambda>p. p_id p = projectId) (projects s))) = 0
      then (Thrown ''Project not found'', s)
      else (let kept = deleteWhere (\<lambda>a. pe_projectId a = projectId) (projectEmployees s);
                added = map (\<lambda>(i, employeeId).
                               \<lparr>pe_id = newId i, pe_projectId = projectId, pe_employeeId = employeeId,
                                pe_userId = userId, pe_createdAt = Some now\<rparr>)
                          (enumerate 0 employeeIds)
            in (Returned (), s\<lparr>projectEmployees := kept @ added\<rparr>)))"


definition removeEmployeeFromProject :: "string \<Rightarrow> string \<Rightarrow> string \<Rightarrow> db \<Rightarrow> bool outcome \<times> db" where
  "removeEmployeeFromProject projectId employeeId userId s =
     (let role = userRole userId s in
      if role \<notin> set [''admin'', ''project_manager'']
      then (Thrown ''Insufficient permissions to remove employees from projects'', s)
      else (let c = (\<lambda>a. pe_projectId a = projectId \<and> pe_employeeId a = employeeId);
                success = (0 < length (filter c (projectEmployees s)))
            in (Returned success, s\<lparr>projectEmployees := deleteWhere c (projectEmployees s)\<rparr>)))"

subsection \<open>Department and organization operations\<close>

definition deleteDepartment :: "string \<Rightarrow> string \<Rightarrow> db \<Rightarrow> bool outcome \<times> db" where
  "deleteDepartment ident userId s =
     (let c = (\<lambda>d. d_id d = ident)
      in (Returned (0 < length (filter c (departments s))),
          s\<lparr>departments := deleteWhere c (departments s)\<rparr>))"

definition updateOrganization ::
  "string \<Rightarrow> partialOrganization \<Rightarrow> string \<Rightarrow> timestamp \<Rightarrow> db \<Rightarrow> organization option outcome \<times> db" where
  "updateOrganization ident organization userId now s =
     (let role = userRole userId s in
      if role \<noteq> ''admin''
      then (Thrown ''Insufficient permissions to update organizations'', s)
      else (let c = (\<lambda>g. o_id g = ident);
                updatedOrganization =
                  firstRow (returning c (setOrganization organization now) (organizations s))
            in (Returned updatedOrganization,
                s\<lparr>organizations := updateWhere c (setOrganization organization now) (organizations s)\<rparr>)))"

text \<open>The departments of a deleted organization go with it (\<open>onDelete: "cascade"\<close>).\<close>

definition deleteOrganization :: "string \<Rightarrow> string \<Rightarrow> db \<Rightarrow> bool outcome \<times> db" where
  "deleteOrganization ident userId s =
     (let role = userRole userId s in
      if role \<noteq> ''admin''
      then (Thrown ''Insufficient permissions to delete organizations'', s)
      else (let c = (\<lambda>g. o_id g = ident);
                success = (0 < length (filter c (organizations s)))
            in if success
               then (Returned success,
                     s\<lparr>organizations := deleteWhere c (organizations s),
                       departments :=
                         deleteWhere (\<lambda>d. d_organizationId d = ident) (departments s)\<rparr>)
               else (Returned success, s)))"

subsection \<open>Derived notions used in the statements\<close>

text \<open>An error whose message starts with "Insufficient permissions".\<close>

definition insufficient :: "'a outcome \<Rightarrow> bool" where
  "insufficient r = (case r of Returned v \<Rightarrow> False
                              | Thrown msg \<Rightarrow> take 24 msg = ''Insufficient permissions'')"



subsection \<open>What a statement on time entries asks of its input\<close>

text \<open>
  \<open>fitsTimeEntry\<close>: the values of a patch are taken by the columns as they are.
  \<open>referencesResolve\<close>: the user, the project and the task that a patch names exist.
  \<open>schemaOk\<close>: the primary keys, the unique columns, the types of the checked columns and
  the foreign keys of shared/schema.ts hold in a database.
\<close>

definition fitsTimeEntry :: "partialTimeEntry \<Rightarrow> bool" where
  "fitsTimeEntry v =
     (list_all plain (concat [case_option [] (\<lambda>x. [x]) (pte_userId v),
                              case_option [] (\<lambda>x. [x]) (pte_projectId v),
                              case_option [] (\<lambda>x. [x]) (pte_taskId v),
                              case_option [] (case_option [] (\<lambda>x. [x])) (pte_description v),
                              case_option [] (\<lambda>x. [x]) (pte_date v),
                              case_option [] (\<lambda>x. [x]) (pte_startTime v),
                              case_option [] (\<lambda>x. [x]) (pte_endTime v)])
      \<and> (case pte_date v of None \<Rightarrow> True | Some x \<Rightarrow> isoDate x)
      \<and> (case pte_startTime v of None \<Rightarrow> True | Some x \<Rightarrow> length x \<le> 5)
      \<and> (case pte_endTime v of None \<Rightarrow> True | Some x \<Rightarrow> length x \<le> 5)
      \<and> (case pte_duration v of None \<Rightarrow> True | Some d \<Rightarrow> - 99999 \<le> d \<and> d \<le> 99999))"

definition referencesResolve :: "partialTimeEntry \<Rightarrow> db \<Rightarrow> bool" where
  "referencesResolve v s =
     ((case pte_userId v of None \<Rightarrow> True | Some u \<Rightarrow> u \<in> set (map u_id (users s)))
      \<and> (case pte_projectId v of None \<Rightarrow> True | Some p \<Rightarrow> p \<in> set (map p_id (projects s)))
      \<and> (case pte_taskId v of None \<Rightarrow> True | Some k \<Rightarrow> k \<in> set (map t_id (tasks s))))"

definition schemaOk :: "db \<Rightarrow> bool" where
  "schemaOk s =
     (distinct (map u_id (users s))
      \<and> distinct (concat (map (\<lambda>u. case_option [] (\<lambda>x. [x]) (u_email u)) (users s)))
      \<and> list_all (\<lambda>u. plain (u_id u)
                        \<and> (case u_role u of None \<Rightarrow> True | Some r \<Rightarrow> plain r \<and> length r \<le> 50))
           (users s)
      \<and> distinct (map p_id (projects s))
      \<and> list_all (\<lambda>p. plain (p_id p) \<and> plain (p_name p) \<and> length (p_name p) \<le> 255
                        \<and> (case p_projectNumber p of None \<Rightarrow> True | Some x \<Rightarrow> plain x \<and> length x \<le> 50)
                        \<and> (case p_color p of None \<Rightarrow> True | Some x \<Rightarrow> plain x \<and> length x \<le> 7)
                        \<and> p_userId p \<in> set (map u_id (users s)))
           (projects s)
      \<and> distinct (map t_id (tasks s))
      \<and> list_all (\<lambda>t. plain (t_id t) \<and> plain (t_name t) \<and> length (t_name t) \<le> 255
                        \<and> plain (t_status t) \<and> length (t_status t) \<le> 50
                        \<and> t_projectId t \<in> set (map p_id (projects s)))
           (tasks s)
      \<and> distinct (map te_id (timeEntries s))
      \<and> list_all (\<lambda>e. plain (te_id e) \<and> isoDate (te_date e)
                        \<and> plain (te_startTime e) \<and> length (te_startTime e) \<le> 5
                        \<and> plain (te_endTime e) \<and> length (te_endTime e) \<le> 5
                        \<and> - 99999 \<le> te_duration e \<and> te_duration e \<le> 99999
                        \<and> te_userId e \<in> set (map u_id (users s))
                        \<and> te_projectId e \<in> set (map p_id (projects s))
                        \<and> (case te_taskId e of None \<Rightarrow> True | Some k \<Rightarrow> k \<in> set (map t_id (tasks s))))
           (timeEntries s)
      \<and> distinct (map e_id (employees s))
      \<and> distinct (map e_employeeId (employees s))
      \<and> list_all (\<lambda>e. plain (e_id e) \<and> plain (e_employeeId e) \<and> plain (e_firstName e)
                        \<and> plain (e_lastName e) \<and> plain (e_department e)
                        \<and> e_userId e \<in> set (map u_id (users s)))
           (employees s)
      \<and> distinct (map pe_id (projectEmployees s))
      \<and> list_all (\<lambda>a. plain (pe_id a)
                        \<and> pe_projectId a \<in> set (map p_id (projects s))
                        \<and> pe_employeeId a \<in> set (map e_id (employees s))
                        \<and> pe_userId a \<in> set (map u_id (users s)))
           (projectEmployees s)
      \<and> distinct (map o_id (organizations s))
      \<and> list_all (\<lambda>g. plain (o_id g) \<and> plain (o_name g)
                        \<and> o_userId g \<in> set (map u_id (users s)))
           (organizations s)
      \<and> distinct (map d_id (departments s))
      \<and> list_all (\<lambda>d. plain (d_id d) \<and> plain (d_name d)
                        \<and> d_organizationId d \<in> set (map o_id (organizations s))
                        \<and> (case d_managerId d of None \<Rightarrow> True | Some m \<Rightarrow> m \<in> set (map e_id (employees s)))
                        \<and> d_userId d \<in> set (map u_id (users s)))
           (departments s))"


subsection \<open>A sample database\<close>

text \<open>
  One user for each role of \<open>createTestUsers\<close> that the statements below need, a user with
  a role outside the closed set and a user without role; an enterprise-wide project of
  the admin and a restricted project of the employee \<open>u1\<close>; one time entry of \<open>u1\<close> and one
  of \<open>u2\<close>; an employee in department \<open>d1\<close> linked to the manager and one in \<open>d2\<close>.
\<close>

definition sampleUser :: "string \<Rightarrow> string option \<Rightarrow> user" where
  "sampleUser ident role =
     \<lparr>u_id = ident, u_email = None, u_firstName = None, u_lastName = None,
      u_profileImageUrl = None, u_role = role, u_isActive = Some True, u_lastLoginAt = None,
      u_createdAt = Some 0, u_updatedAt = Some 0\<rparr>"

definition sampleProject :: "string \<Rightarrow> string \<Rightarrow> bool \<Rightarrow> string \<Rightarrow> project" where
  "sampleProject ident name wide owner =
     \<lparr>p_id = ident, p_name = name, p_projectNumber = None, p_description = None,
      p_color = Some ''#1976D2'', p_startDate = None, p_endDate = None,
      p_isEnterpriseWide = wide, p_userId = owner, p_createdAt = Some 0, p_updatedAt = Some 0\<rparr>"

definition sampleTask :: task where
  "sampleTask = \<lparr>t_id = ''t1'', t_projectId = ''p1'', t_name = ''Design'', t_description = None,
                 t_status = ''active'', t_createdAt = Some 0, t_updatedAt = Some 0\<rparr>"

definition sampleEntry :: "string \<Rightarrow> string \<Rightarrow> timeEntry" where
  "sampleEntry ident owner =
     \<lparr>te_id = ident, te_userId = owner, te_projectId = ''p1'', te_taskId = None,
      te_description = None, te_date = ''2025-08-17'', te_startTime = ''09:00'',
      te_endTime = ''10:00'', te_duration = 100, te_createdAt = Some 0, te_updatedAt = Some 0\<rparr>"

definition sampleEmployee :: "string \<Rightarrow> string \<Rightarrow> string \<Rightarrow> string \<Rightarrow> employee" where
  "sampleEmployee ident first dept uid =
     \<lparr>e_id = ident, e_employeeId = ident, e_firstName = first, e_lastName = ''Lee'',
      e_department = dept, e_userId = uid, e_createdAt = Some 0, e_updatedAt = Some 0\<rparr>"

definition sampleOrganization :: organization where
  "sampleOrganization = \<lparr>o_id = ''o1'', o_name = ''Org'', o_description = None, o_userId = ''a1'',
                         o_createdAt = Some 0, o_updatedAt = Some 0\<rparr>"

definition sampleDepartment :: department where
  "sampleDepartment = \<lparr>d_id = ''dep1'', d_name = ''d1'', d_organizationId = ''o1'',
                       d_managerId = Some ''e1'', d_description = None, d_userId = ''a1'',
                       d_createdAt = Some 0, d_updatedAt = Some 0\<rparr>"

definition sampleDb :: db where
  "sampleDb =
     \<lparr>users = [sampleUser ''a1'' (Some ''admin''), sampleUser ''u1'' (Some ''employee''),
               sampleUser ''u2'' (Some ''employee''), sampleUser ''m1'' (Some ''manager''),
               sampleUser ''x1'' (Some ''superuser''), sampleUser ''n1'' None],
      projects = [sampleProject ''p1'' ''Alpha'' True ''a1'', sampleProject ''p2'' ''Beta'' False ''u1''],
      tasks = [sampleTask],
      timeEntries = [sampleEntry ''te1'' ''u1'', sampleEntry ''te2'' ''u2''],
      employees = [sampleEmployee ''e1'' ''Ann'' ''d1'' ''m1'', sampleEmployee ''e2'' ''Bob'' ''d2'' ''u2''],
      projectEmployees = [],
      departments = [sampleDepartment],
      organizations = [sampleOrganization]\<rparr>"

definition sampleInsertProject :: insertProject where
  "sampleInsertProject =
     \<lparr>ip_name = ''Gamma'', ip_projectNumber = None, ip_description = None, ip_color = None,
      ip_startDate = None, ip_endDate = None, ip_isEnterpriseWide = None, ip_userId = ''u1''\<rparr>"

definition sampleInsertTask :: insertTask where
  "sampleInsertTask = \<lparr>it_projectId = ''p1'', it_name = ''Review'', it_description = None,
                       it_status = None\<rparr>"

definition sampleInsertTimeEntry :: insertTimeEntry where
  "sampleInsertTimeEntry =
     \<lparr>ite_userId = ''u1'', ite_projectId = ''p1'', ite_taskId = None, ite_description = None,
      ite_date = ''2025-08-18'', ite_startTime = ''09:00'', ite_endTime = ''11:00'',
      ite_duration = 200\<rparr>"

text \<open>Patches that set one column.\<close>

definition renameProject :: partialProject where
  "renameProject = \<lparr>pp_name = Some ''Renamed'', pp_projectNumber = None, pp_description = None,
                    pp_color = None, pp_startDate = None, pp_endDate = None,
                    pp_isEnterpriseWide = None, pp_userId = None\<rparr>"

definition renameTask :: partialTask where
  "renameTask = \<lparr>pt_projectId = None, pt_name = Some ''Renamed'', pt_description = None,
                 pt_status = None\<rparr>"

definition longerEntry :: partialTimeEntry where
  "longerEntry = \<lparr>pte_userId = None, pte_projectId = None, pte_taskId = None,
                  pte_description = None, pte_date = None, pte_startTime = None,
                  pte_endTime = None, pte_duration = Some 300\<rparr>"

definition moveEmployee :: partialEmployee where
  "moveEmployee = \<lparr>pem_employeeId = None, pem_firstName = None, pem_lastName = None,
                   pem_department = Some ''d9'', pem_userId = None\<rparr>"

definition renameOrganization :: partialOrganization where
  "renameOrganization = \<lparr>po_name = Some ''Renamed'', po_description = None, po_userId = None\<rparr>"

subsection \<open>Comparing two databases that differ in the users table\<close>




text \<open>
  A database without administrator: two users, both employees, and a restricted project
  of the first; the other tables are empty.
\<close>

definition noAdminDb :: db where
  "noAdminDb =
     \<lparr>users = [sampleUser ''u1'' (Some ''employee''), sampleUser ''u2'' (Some ''employee'')],
      projects = [sampleProject ''p2'' ''Beta'' False ''u1''],
      tasks = [], timeEntries = [], employees = [], projectEmployees = [],
      departments = [], organizations = []\<rparr>"

lemmas sample_defs =
  sampleDb_def sampleUser_def sampleProject_def sampleTask_def sampleEntry_def
  sampleEmployee_def sampleOrganization_def sampleDepartment_def sampleInsertProject_def
  sampleInsertTask_def sampleInsertTimeEntry_def renameProject_def renameTask_def
  longerEntry_def moveEmployee_def renameOrganization_def

section \<open>Basic facts\<close>

lemma insufficient_simps:
  "insufficient (Returned v) = False"
  "insufficient (Thrown msg) = (take 24 msg = ''Insufficient permissions'')"
  by (simp_all add: insufficient_def)



lemma sample_roles:
  "userRole ''a1'' sampleDb = ''admin''"
  "userRole ''u1'' sampleDb = ''employee''"
  "userRole ''u2'' sampleDb = ''employee''"
  "userRole ''m1'' sampleDb = ''manager''"
  "userRole ''x1'' sampleDb = ''superuser''"
  "userRole ''n1'' sampleDb = ''employee''"
  "userRole ''ghost'' sampleDb = ''employee''"
  by (simp_all add: userRole_def getUser_def firstRow_def roleOrEmployee_def sample_defs)

lemma firstRow_filter_Some:
  "x \<in> set xs \<Longrightarrow> c x \<Longrightarrow> \<exists>q. firstRow (filter c xs) = Some q \<and> q \<in> set xs \<and> c q"
proof (cases "filter c xs")
  case Nil
  assume "x \<in> set xs" "c x"
  with Nil show ?thesis by (simp add: filter_empty_conv)
next
  case (Cons q qs)
  then have "q \<in> set (filter c xs)" by simp
  then have "q \<in> set xs \<and> c q" by simp
  with Cons show ?thesis by (simp add: firstRow_def)
qed

lemma filter_key_distinct:
  "distinct (map f xs) \<Longrightarrow> x \<in> set xs \<Longrightarrow> filter (\<lambda>y. f y = f x) xs = [x]"
proof (induction xs)
  case Nil
  then show ?case by simp
next
  case (Cons a xs)
  show ?case
  proof (cases "a = x")
    case True
    with Cons.prems have "\<forall>y\<in>set xs. f y \<noteq> f x" by (auto simp: image_iff)
    then have "filter (\<lambda>y. f y = f x) xs = []" by (simp add: filter_empty_conv)
    with True show ?thesis by simp
  next
    case False
    with Cons.prems have "x \<in> set xs" and "f a \<noteq> f x" by (auto simp: image_iff)
    with Cons show ?thesis by simp
  qed
qed

section \<open>The role gates\<close>

text \<open>
  For each method with a role check: a caller whose role is not on the list of the check
  gets the error and the database stays as it was; a caller whose role is on the list
  gets no "Insufficient permissions" error.
\<close>

lemma createProject_refused:
  "userRole userId s \<notin> set [''admin'', ''project_manager''] \<Longrightarrow>
   createProject project userId newId now s = (Thrown ''Insufficient permissions to create projects'', s)"
  by (simp add: createProject_def)

lemma createProject_granted:
  "userRole userId s \<in> set [''admin'', ''project_manager''] \<Longrightarrow>
   \<not> insufficient (fst (createProject project userId newId now s))"
  by (simp add: createProject_def insufficient_simps Let_def )

lemma updateProject_refused:
  "userRole userId s \<notin> set [''admin'', ''project_manager''] \<Longrightarrow>
   updateProject ident v userId now s = (Thrown ''Insufficient permissions to update projects'', s)"
  by (simp add: updateProject_def)

lemma updateProject_granted:
  "userRole userId s \<in> set [''admin'', ''project_manager''] \<Longrightarrow>
   \<not> insufficient (fst (updateProject ident v userId now s))"
  by (simp add: updateProject_def insufficient_simps Let_def )

lemma deleteProject_refused:
  "userRole userId s \<notin> set [''admin'', ''project_manager''] \<Longrightarrow>
   deleteProject ident userId s = (Thrown ''Insufficient permissions to delete projects'', s)"
  by (simp add: deleteProject_def)

lemma deleteProject_granted:
  "userRole userId s \<in> set [''admin'', ''project_manager''] \<Longrightarrow>
   \<not> insufficient (fst (deleteProject ident userId s))"
  by (simp add: deleteProject_def insufficient_simps Let_def )

lemma updateTask_refused:
  "userRole userId s \<notin> set [''admin'', ''project_manager''] \<Longrightarrow>
   updateTask ident v userId now s = (Thrown ''Insufficient permissions to update tasks'', s)"
  by (simp add: updateTask_def)

lemma updateTask_granted:
  "userRole userId s \<in> set [''admin'', ''project_manager''] \<Longrightarrow>
   \<not> insufficient (fst (updateTask ident v userId now s))"
  by (simp add: updateTask_def insufficient_simps Let_def split: option.splits)

lemma deleteTask_refused:
  "userRole userId s \<notin> set [''admin'', ''project_manager''] \<Longrightarrow>
   deleteTask ident userId s = (Thrown ''Insufficient permissions to delete tasks'', s)"
  by (simp add: deleteTask_def)

lemma deleteTask_granted:
  "userRole userId s \<in> set [''admin'', ''project_manager''] \<Longrightarrow>
   \<not> insufficient (fst (deleteTask ident userId s))"
  by (simp add: deleteTask_def insufficient_simps Let_def split: option.splits)

lemma updateEmployee_refused:
  "userRole userId s \<notin> set [''admin'', ''manager''] \<Longrightarrow>
   updateEmployee ident v userId now s = (Thrown ''Insufficient permissions to update employee information'', s)"
  by (simp add: updateEmployee_def)

lemma updateEmployee_granted:
  "userRole userId s \<in> set [''admin'', ''manager''] \<Longrightarrow>
   \<not> insufficient (fst (updateEmployee ident v userId now s))"
  by (simp add: updateEmployee_def insufficient_simps Let_def )

lemma deleteEmployee_refused:
  "userRole userId s \<notin> set [''admin''] \<Longrightarrow>
   deleteEmployee ident userId s = (Thrown ''Insufficient permissions to delete employees'', s)"
  by (simp add: deleteEmployee_def)

lemma deleteEmployee_granted:
  "userRole userId s \<in> set [''admin''] \<Longrightarrow>
   \<not> insufficient (fst (deleteEmployee ident userId s))"
  by (simp add: deleteEmployee_def insufficient_simps Let_def )

lemma assignEmployeesToProject_refused:
  "userRole userId s \<notin> set [''admin'', ''project_manager''] \<Longrightarrow>
   assignEmployeesToProject projectId employeeIds userId newId now s = (Thrown ''Insufficient permissions to assign employees to projects'', s)"
  by (simp add: assignEmployeesToProject_def)

lemma assignEmployeesToProject_granted:
  "userRole userId s \<in> set [''admin'', ''project_manager''] \<Longrightarrow>
   \<not> insufficient (fst (assignEmployeesToProject projectId employeeIds userId newId now s))"
  by (simp add: assignEmployeesToProject_def insufficient_simps Let_def )

lemma removeEmployeeFromProject_refused:
  "userRole userId s \<notin> set [''admin'', ''project_manager''] \<Longrightarrow>
   removeEmployeeFromProject projectId employeeId userId s = (Thrown ''Insufficient permissions to remove employees from projects'', s)"
  by (simp add: removeEmployeeFromProject_def)

lemma removeEmployeeFromProject_granted:
  "userRole userId s \<in> set [''admin'', ''project_manager''] \<Longrightarrow>
   \<not> insufficient (fst (removeEmployeeFromProject projectId employeeId userId s))"
  by (simp add: removeEmployeeFromProject_def insufficient_simps Let_def )

lemma updateOrganization_refused:
  "userRole userId s \<notin> set [''admin''] \<Longrightarrow>
   updateOrganization ident v userId now s = (Thrown ''Insufficient permissions to update organizations'', s)"
  by (simp add: updateOrganization_def)

lemma updateOrganization_granted:
  "userRole userId s \<in> set [''admin''] \<Longrightarrow>
   \<not> insufficient (fst (updateOrganization ident v userId now s))"
  by (simp add: updateOrganization_def insufficient_simps Let_def )

lemma deleteOrganization_refused:
  "userRole userId s \<notin> set [''admin''] \<Longrightarrow>
   deleteOrganization ident userId s = (Thrown ''Insufficient permissions to delete organizations'', s)"
  by (simp add: deleteOrganization_def)

lemma deleteOrganization_granted:
  "userRole userId s \<in> set [''admin''] \<Longrightarrow>
   \<not> insufficient (fst (deleteOrganization ident userId s))"
  by (simp add: deleteOrganization_def insufficient_simps Let_def )

lemma createTask_refused:
  "userId \<noteq> [] \<Longrightarrow> userRole userId s \<notin> set [''admin'', ''project_manager''] \<Longrightarrow>
   createTask task (Some userId) newId now s = (Thrown ''Insufficient permissions to create tasks'', s)"
  by (simp add: createTask_def)




lemma createTask_atomic:
  "insufficient (fst (createTask task optUserId newId now s)) \<Longrightarrow>
   snd (createTask task optUserId newId now s) = s"
  by (simp add: createTask_def insufficient_simps Let_def split: if_splits)

lemma sample_refusals:
  "createProject sampleInsertProject ''u1'' ''p3'' 5 sampleDb
     = (Thrown ''Insufficient permissions to create projects'', sampleDb)"
  "updateProject ''p1'' renameProject ''u1'' 5 sampleDb
     = (Thrown ''Insufficient permissions to update projects'', sampleDb)"
  "deleteProject ''p1'' ''u1'' sampleDb
     = (Thrown ''Insufficient permissions to delete projects'', sampleDb)"
  "createTask sampleInsertTask (Some ''u1'') ''p3'' 5 sampleDb
     = (Thrown ''Insufficient permissions to create tasks'', sampleDb)"
  "updateTask ''t1'' renameTask ''u1'' 5 sampleDb
     = (Thrown ''Insufficient permissions to update tasks'', sampleDb)"
  "deleteTask ''t1'' ''u1'' sampleDb
     = (Thrown ''Insufficient permissions to delete tasks'', sampleDb)"
  "updateEmployee ''e1'' moveEmployee ''u1'' 5 sampleDb
     = (Thrown ''Insufficient permissions to update employee information'', sampleDb)"
  "deleteEmployee ''e1'' ''u1'' sampleDb
     = (Thrown ''Insufficient permissions to delete employees'', sampleDb)"
  "assignEmployeesToProject ''p1'' [''e1'', ''e2''] ''u1'' g 5 sampleDb
     = (Thrown ''Insufficient permissions to assign employees to projects'', sampleDb)"
  "removeEmployeeFromProject ''p1'' ''e1'' ''u1'' sampleDb
     = (Thrown ''Insufficient permissions to remove employees from projects'', sampleDb)"
  "updateOrganization ''o1'' renameOrganization ''u1'' 5 sampleDb
     = (Thrown ''Insufficient permissions to update organizations'', sampleDb)"
  "deleteOrganization ''o1'' ''u1'' sampleDb
     = (Thrown ''Insufficient permissions to delete organizations'', sampleDb)"
  by (simp_all add: sample_roles createProject_refused updateProject_refused deleteProject_refused
        createTask_refused updateTask_refused deleteTask_refused updateEmployee_refused
        deleteEmployee_refused assignEmployeesToProject_refused removeEmployeeFromProject_refused
        updateOrganization_refused deleteOrganization_refused)

section \<open>Reading one project\<close>

text \<open>
  Claim C9. Reading a single project by id does not depend on the requesting user: for
  every project id and any two user ids, \<open>getProject\<close> returns the same result. Every
  stored project can be read by every user: the call with the id of a stored project
  returns a stored project with that id, and the project itself when ids are unique,
  whoever owns it and whether or not it is enterprise-wide.
\<close>

theorem C9_getProject_ignores_the_caller:
  "getProject projectId u1 s = getProject projectId u2 s
 \<and> (p \<in> set (projects s) \<longrightarrow>
        (\<exists>q. getProject (p_id p) u1 s = Returned (Some q) \<and> q \<in> set (projects s) \<and> p_id q = p_id p))
 \<and> (p \<in> set (projects s) \<and> distinct (map p_id (projects s)) \<longrightarrow>
        getProject (p_id p) u1 s = Returned (Some p))"
proof (intro conjI impI)
  show "getProject projectId u1 s = getProject projectId u2 s"
    by (simp add: getProject_def)
  show "\<exists>q. getProject (p_id p) u1 s = Returned (Some q) \<and> q \<in> set (projects s) \<and> p_id q = p_id p"
    if "p \<in> set (projects s)"
    using firstRow_filter_Some[OF that, of "\<lambda>q. p_id q = p_id p"]
    by (auto simp: getProject_def)
  show "getProject (p_id p) u1 s = Returned (Some p)"
    if "p \<in> set (projects s) \<and> distinct (map p_id (projects s))"
    using that filter_key_distinct[of p_id "projects s" p]
    by (simp add: getProject_def firstRow_def)
qed

text \<open>
  At the sample database: the restricted project \<open>p2\<close> of \<open>u1\<close> is returned to \<open>u2\<close>.
\<close>

theorem C9_getProject_ignores_the_caller_witness:
  "sampleProject ''p2'' ''Beta'' False ''u1'' \<in> set (projects sampleDb)
 \<and> distinct (map p_id (projects sampleDb))
 \<and> getProject ''p2'' ''u2'' sampleDb = getProject ''p2'' ''u1'' sampleDb
 \<and> getProject ''p2'' ''u2'' sampleDb = Returned (Some (sampleProject ''p2'' ''Beta'' False ''u1''))"
proof -
  have h: "sampleProject ''p2'' ''Beta'' False ''u1'' \<in> set (projects sampleDb)
           \<and> distinct (map p_id (projects sampleDb))"
    by (simp add: sample_defs)
  have i: "p_id (sampleProject ''p2'' ''Beta'' False ''u1'') = ''p2''"
    by (simp add: sample_defs)
  from h i C9_getProject_ignores_the_caller
             [of "''p2''" "''u2''" sampleDb "''u1''" "sampleProject ''p2'' ''Beta'' False ''u1''"]
  show ?thesis by metis
qed


section \<open>Refusal before any write\<close>

text \<open>
  Claim C10. Denial is atomic: for each of the twelve mutating methods with a role check
  (\<open>createProject\<close>, \<open>updateProject\<close>, \<open>deleteProject\<close>, \<open>createTask\<close>, \<open>updateTask\<close>,
  \<open>deleteTask\<close>, \<open>updateEmployee\<close>, \<open>deleteEmployee\<close>, \<open>assignEmployeesToProject\<close>,
  \<open>removeEmployeeFromProject\<close>, \<open>updateOrganization\<close>, \<open>deleteOrganization\<close>), if the call
  ends with an "Insufficient permissions" error then the database after the call is the
  database before it: no row was inserted, updated or deleted.
\<close>

theorem C10_denial_is_atomic:
  "(insufficient (fst (createProject project userId newId now s))
      \<longrightarrow> snd (createProject project userId newId now s) = s)
 \<and> (insufficient (fst (updateProject projectId projectPatch userId now s))
      \<longrightarrow> snd (updateProject projectId projectPatch userId now s) = s)
 \<and> (insufficient (fst (deleteProject projectId userId s))
      \<longrightarrow> snd (deleteProject projectId userId s) = s)
 \<and> (insufficient (fst (createTask task optUserId newId now s))
      \<longrightarrow> snd (createTask task optUserId newId now s) = s)
 \<and> (insufficient (fst (updateTask taskId taskPatch userId now s))
      \<longrightarrow> snd (updateTask taskId taskPatch userId now s) = s)
 \<and> (insufficient (fst (deleteTask taskId userId s))
      \<longrightarrow> snd (deleteTask taskId userId s) = s)
 \<and> (insufficient (fst (updateEmployee employeeId employeePatch userId now s))
      \<longrightarrow> snd (updateEmployee employeeId employeePatch userId now s) = s)
 \<and> (insufficient (fst (deleteEmployee employeeId userId s))
      \<longrightarrow> snd (deleteEmployee employeeId userId s) = s)
 \<and> (insufficient (fst (assignEmployeesToProject projectId employeeIds userId newIds now s))
      \<longrightarrow> snd (assignEmployeesToProject projectId employeeIds userId newIds now s) = s)
 \<and> (insufficient (fst (removeEmployeeFromProject projectId employeeId userId s))
      \<longrightarrow> snd (removeEmployeeFromProject projectId employeeId userId s) = s)
 \<and> (insufficient (fst (updateOrganization organizationId organizationPatch userId now s))
      \<longrightarrow> snd (updateOrganization organizationId organizationPatch userId now s) = s)
 \<and> (insufficient (fst (deleteOrganization organizationId userId s))
      \<longrightarrow> snd (deleteOrganization organizationId userId s) = s)"
proof (intro conjI impI)
  show "snd (createProject project userId newId now s) = s"
    if "insufficient (fst (createProject project userId newId now s))"
    using that createProject_granted createProject_refused
    by (cases "userRole userId s \<in> set [''admin'', ''project_manager'']") (blast, simp)
  show "snd (updateProject projectId projectPatch userId now s) = s"
    if "insufficient (fst (updateProject projectId projectPatch userId now s))"
    using that updateProject_granted updateProject_refused
    by (cases "userRole userId s \<in> set [''admin'', ''project_manager'']") (blast, simp)
  show "snd (deleteProject projectId userId s) = s"
    if "insufficient (fst (deleteProject projectId userId s))"
    using that deleteProject_granted deleteProject_refused
    by (cases "userRole userId s \<in> set [''admin'', ''project_manager'']") (blast, simp)
  show "snd (createTask task optUserId newId now s) = s"
    if "insufficient (fst (createTask task optUserId newId now s))"
    using that by (rule createTask_atomic)
  show "snd (updateTask taskId taskPatch userId now s) = s"
    if "insufficient (fst (updateTask taskId taskPatch userId now s))"
    using that updateTask_granted updateTask_refused
    by (cases "userRole userId s \<in> set [''admin'', ''project_manager'']") (blast, simp)
  show "snd (deleteTask taskId userId s) = s"
    if "insufficient (fst (deleteTask taskId userId s))"
    using that deleteTask_granted deleteTask_refused
    by (cases "userRole userId s \<in> set [''admin'', ''project_manager'']") (blast, simp)
  show "snd (updateEmployee employeeId employeePatch userId now s) = s"
    if "insufficient (fst (updateEmployee employeeId employeePatch userId now s))"
    using that updateEmployee_granted updateEmployee_refused
    by (cases "userRole userId s \<in> set [''admin'', ''manager'']") (blast, simp)
  show "snd (deleteEmployee employeeId userId s) = s"
    if "insufficient (fst (deleteEmployee employeeId userId s))"
    using that deleteEmployee_granted deleteEmployee_refused
    by (cases "userRole userId s \<in> set [''admin'']") (blast, simp)
  show "snd (assignEmployeesToProject projectId employeeIds userId newIds now s) = s"
    if "insufficient (fst (assignEmployeesToProject projectId employeeIds userId newIds now s))"
    using that assignEmployeesToProject_granted assignEmployeesToProject_refused
    by (cases "userRole userId s \<in> set [''admin'', ''project_manager'']") (blast, simp)
  show "snd (removeEmployeeFromProject projectId employeeId userId s) = s"
    if "insufficient (fst (removeEmployeeFromProject projectId employeeId userId s))"
    using that removeEmployeeFromProject_granted removeEmployeeFromProject_refused
    by (cases "userRole userId s \<in> set [''admin'', ''project_manager'']") (blast, simp)
  show "snd (updateOrganization organizationId organizationPatch userId now s) = s"
    if "insufficient (fst (updateOrganization organizationId organizationPatch userId now s))"
    using that updateOrganization_granted updateOrganization_refused
    by (cases "userRole userId s \<in> set [''admin'']") (blast, simp)
  show "snd (deleteOrganization organizationId userId s) = s"
    if "insufficient (fst (deleteOrganization organizationId userId s))"
    using that deleteOrganization_granted deleteOrganization_refused
    by (cases "userRole userId s \<in> set [''admin'']") (blast, simp)
qed

text \<open>
  At the sample database, with the employee \<open>u1\<close> as the caller of each method.
\<close>

theorem C10_denial_is_atomic_witness:
  "insufficient (fst (createProject sampleInsertProject ''u1'' ''p3'' 5 sampleDb))
 \<and> snd (createProject sampleInsertProject ''u1'' ''p3'' 5 sampleDb) = sampleDb
 \<and> insufficient (fst (updateProject ''p1'' renameProject ''u1'' 5 sampleDb))
 \<and> snd (updateProject ''p1'' renameProject ''u1'' 5 sampleDb) = sampleDb
 \<and> insufficient (fst (deleteProject ''p1'' ''u1'' sampleDb))
 \<and> snd (deleteProject ''p1'' ''u1'' sampleDb) = sampleDb
 \<and> insufficient (fst (createTask sampleInsertTask (Some ''u1'') ''p3'' 5 sampleDb))
 \<and> snd (createTask sampleInsertTask (Some ''u1'') ''p3'' 5 sampleDb) = sampleDb
 \<and> insufficient (fst (updateTask ''t1'' renameTask ''u1'' 5 sampleDb))
 \<and> snd (updateTask ''t1'' renameTask ''u1'' 5 sampleDb) = sampleDb
 \<and> insufficient (fst (deleteTask ''t1'' ''u1'' sampleDb))
 \<and> snd (deleteTask ''t1'' ''u1'' sampleDb) = sampleDb
 \<and> insufficient (fst (updateEmployee ''e1'' moveEmployee ''u1'' 5 sampleDb))
 \<and> snd (updateEmployee ''e1'' moveEmployee ''u1'' 5 sampleDb) = sampleDb
 \<and> insufficient (fst (deleteEmployee ''e1'' ''u1'' sampleDb))
 \<and> snd (deleteEmployee ''e1'' ''u1'' sampleDb) = sampleDb
 \<and> insufficient (fst (assignEmployeesToProject ''p1'' [''e1'', ''e2''] ''u1'' (\<lambda>i. ''a'') 5 sampleDb))
 \<and> snd (assignEmployeesToProject ''p1'' [''e1'', ''e2''] ''u1'' (\<lambda>i. ''a'') 5 sampleDb) = sampleDb
 \<and> insufficient (fst (removeEmployeeFromProject ''p1'' ''e1'' ''u1'' sampleDb))
 \<and> snd (removeEmployeeFromProject ''p1'' ''e1'' ''u1'' sampleDb) = sampleDb
 \<and> insufficient (fst (updateOrganization ''o1'' renameOrganization ''u1'' 5 sampleDb))
 \<and> snd (updateOrganization ''o1'' renameOrganization ''u1'' 5 sampleDb) = sampleDb
 \<and> insufficient (fst (deleteOrganization ''o1'' ''u1'' sampleDb))
 \<and> snd (deleteOrganization ''o1'' ''u1'' sampleDb) = sampleDb"
proof -
  have h:
    "insufficient (fst (createProject sampleInsertProject ''u1'' ''p3'' 5 sampleDb))"
    "insufficient (fst (updateProject ''p1'' renameProject ''u1'' 5 sampleDb))"
    "insufficient (fst (deleteProject ''p1'' ''u1'' sampleDb))"
    "insufficient (fst (createTask sampleInsertTask (Some ''u1'') ''p3'' 5 sampleDb))"
    "insufficient (fst (updateTask ''t1'' renameTask ''u1'' 5 sampleDb))"
    "insufficient (fst (deleteTask ''t1'' ''u1'' sampleDb))"
    "insufficient (fst (updateEmployee ''e1'' moveEmployee ''u1'' 5 sampleDb))"
    "insufficient (fst (deleteEmployee ''e1'' ''u1'' sampleDb))"
    "insufficient (fst (assignEmployeesToProject ''p1'' [''e1'', ''e2''] ''u1'' (\<lambda>i. ''a'') 5 sampleDb))"
    "insufficient (fst (removeEmployeeFromProject ''p1'' ''e1'' ''u1'' sampleDb))"
    "insufficient (fst (updateOrganization ''o1'' renameOrganization ''u1'' 5 sampleDb))"
    "insufficient (fst (deleteOrganization ''o1'' ''u1'' sampleDb))"
    by (simp_all add: sample_refusals insufficient_simps)
  from h C10_denial_is_atomic
         [of sampleInsertProject "''u1''" "''p3''" 5 sampleDb "''p1''" renameProject
             sampleInsertTask "Some ''u1''" "''t1''" renameTask "''e1''" moveEmployee
             "[''e1'', ''e2'']" "\<lambda>i. ''a''" "''o1''" renameOrganization]
  show ?thesis by blast
qed

section \<open>Unresolved roles\<close>



























section \<open>Facts about the statements on a table\<close>

lemma firstRow_map: "firstRow (map f xs) = map_option f (firstRow xs)"
  by (cases xs) (simp_all add: firstRow_def)

lemma updateWhere_none: "filter c xs = [] \<Longrightarrow> updateWhere c st xs = xs"
  by (induction xs) (auto simp: updateWhere_def split: if_splits)

lemma deleteWhere_none: "filter c xs = [] \<Longrightarrow> deleteWhere c xs = xs"
  by (induction xs) (auto simp: deleteWhere_def split: if_splits)

lemma filter_key_updateWhere:
  assumes "\<And>r. key (st r) = key r"
  shows "filter (\<lambda>r. key r = k) (updateWhere (\<lambda>r. key r = i) st xs)
         = (if k = i then map st (filter (\<lambda>r. key r = k) xs) else filter (\<lambda>r. key r = k) xs)"
  by (induction xs) (auto simp: updateWhere_def assms)

lemma filter_own_entry:
  assumes "distinct (map te_id xs)" and "e \<in> set xs"
  shows "filter (\<lambda>x. te_id x = te_id e \<and> te_userId x = userId) xs
         = (if te_userId e = userId then [e] else [])"
proof -
  have "filter (\<lambda>x. te_id x = te_id e \<and> te_userId x = userId) xs
        = filter (\<lambda>x. te_userId x = userId) (filter (\<lambda>x. te_id x = te_id e) xs)"
    by (simp add: conj_commute)
  also have "\<dots> = filter (\<lambda>x. te_userId x = userId) [e]"
    using filter_key_distinct[OF assms] by simp
  finally show ?thesis by simp
qed

lemma updateWhere_member: "e \<in> set xs \<Longrightarrow> c e \<Longrightarrow> st e \<in> set (updateWhere c st xs)"
  by (auto simp: updateWhere_def image_iff intro!: bexI[of _ e])

lemma deleteWhere_member: "c e \<Longrightarrow> e \<notin> set (deleteWhere c xs)"
  by (simp add: deleteWhere_def)





section \<open>Refusal is an exception\<close>




section \<open>The employee list\<close>




section \<open>The projects an employee sees\<close>




section \<open>Facts about the checks of the database\<close>

lemma sample_schemaOk: "schemaOk sampleDb" "schemaOk noAdminDb"
  by code_simp+

lemma firstError_None: "list_all (\<lambda>e. e = None) es \<Longrightarrow> firstError es = None"
  by (induction es) (auto simp: firstError_def)










lemma take_all_option: "(case v of None \<Rightarrow> True | Some x \<Rightarrow> length x \<le> n) \<Longrightarrow> map_option (take n) v = v"
  by (cases v) simp_all

lemma fits_checkedTimeEntry: "fitsTimeEntry v \<Longrightarrow> checkedTimeEntry v = Returned v"
proof -
  assume f: "fitsTimeEntry v"
  from f have e: "firstError
             [textError (concat [case_option [] (\<lambda>x. [x]) (pte_userId v),
                                 case_option [] (\<lambda>x. [x]) (pte_projectId v),
                                 case_option [] (\<lambda>x. [x]) (pte_taskId v),
                                 case_option [] (case_option [] (\<lambda>x. [x])) (pte_description v),
                                 case_option [] (\<lambda>x. [x]) (pte_date v),
                                 case_option [] (\<lambda>x. [x]) (pte_startTime v),
                                 case_option [] (\<lambda>x. [x]) (pte_endTime v)]),
              dateError (pte_date v),
              varcharError 5 (pte_startTime v),
              varcharError 5 (pte_endTime v),
              decimalError (pte_duration v)] = None"
    by (intro firstError_None)
       (auto simp: fitsTimeEntry_def textError_def dateError_def varcharError_def
                   fitsVarchar_def decimalError_def split: option.splits)
  from f have t: "map_option (take 5) (pte_startTime v) = pte_startTime v"
                 "map_option (take 5) (pte_endTime v) = pte_endTime v"
    by (simp_all add: fitsTimeEntry_def take_all_option)
  show ?thesis
    unfolding checkedTimeEntry_def e t by simp
qed

lemma resolve_referenceError: "referencesResolve v s \<Longrightarrow> timeEntryReferenceError v s = None"
  unfolding timeEntryReferenceError_def
  by (intro firstError_None) (auto simp: referencesResolve_def split: option.splits)

lemma role_accepted:
  "plain role \<Longrightarrow> length role \<le> 50 \<Longrightarrow> firstError [textError [role], varcharError 50 (Some role)] = None"
  by (intro firstError_None) (simp add: textError_def varcharError_def fitsVarchar_def)

section \<open>Creating a task without a caller\<close>

text \<open>
  Claim C2. A call that leaves out the caller must be denied and change nothing; in
  particular, creating a task with the acting user id absent must be denied. The code
  at this input: \<open>createTask\<close> looks up the role only inside \<open>if (userId)\<close>, so without a
  user id, and with the empty one, no role is consulted and the call never ends in the
  "Insufficient permissions" error; at the sample database the task is inserted and
  returned. With the id of the employee \<open>u1\<close> the same call is refused.
\<close>

theorem C2_createTask_without_caller_inserts:
  "\<not> insufficient (fst (createTask task None newId now s))
 \<and> \<not> insufficient (fst (createTask task (Some []) newId now s))
 \<and> createTask sampleInsertTask None ''t2'' 5 sampleDb
     = (Returned (insertedTask sampleInsertTask ''t2'' 5),
        sampleDb\<lparr>tasks := [sampleTask, insertedTask sampleInsertTask ''t2'' 5]\<rparr>)
 \<and> createTask sampleInsertTask (Some []) ''t2'' 5 sampleDb
     = (Returned (insertedTask sampleInsertTask ''t2'' 5),
        sampleDb\<lparr>tasks := [sampleTask, insertedTask sampleInsertTask ''t2'' 5]\<rparr>)
 \<and> createTask sampleInsertTask (Some ''u1'') ''t2'' 5 sampleDb
     = (Thrown ''Insufficient permissions to create tasks'', sampleDb)"
proof (intro conjI)
  show "\<not> insufficient (fst (createTask task None newId now s))"
    by (simp add: createTask_def insufficient_simps Let_def)
  show "\<not> insufficient (fst (createTask task (Some []) newId now s))"
    by (simp add: createTask_def insufficient_simps Let_def)
  show "createTask sampleInsertTask None ''t2'' 5 sampleDb
     = (Returned (insertedTask sampleInsertTask ''t2'' 5),
        sampleDb\<lparr>tasks := [sampleTask, insertedTask sampleInsertTask ''t2'' 5]\<rparr>)"
    by (simp add: createTask_def sampleDb_def Let_def)
  show "createTask sampleInsertTask (Some []) ''t2'' 5 sampleDb
     = (Returned (insertedTask sampleInsertTask ''t2'' 5),
        sampleDb\<lparr>tasks := [sampleTask, insertedTask sampleInsertTask ''t2'' 5]\<rparr>)"
    by (simp add: createTask_def sampleDb_def Let_def)
  show "createTask sampleInsertTask (Some ''u1'') ''t2'' 5 sampleDb
     = (Thrown ''Insufficient permissions to create tasks'', sampleDb)"
    by (simp add: createTask_refused sample_roles)
qed

section \<open>Which methods have a role gate\<close>

text \<open>
  \<open>deleteDepartment\<close> takes the id of the caller and does not read it (as
  \<open>updateDepartment\<close>, which is not embedded), where \<open>updateOrganization\<close> and
  \<open>deleteOrganization\<close> test for \<open>admin\<close>.
\<close>

lemma deleteDepartment_ignores_the_caller:
  "deleteDepartment ident userId s = deleteDepartment ident otherId s"
  by (simp add: deleteDepartment_def)




section \<open>Changing a role\<close>

text \<open>
  Claim C4 says that a role changes only through an operation performed by an admin and
  that the request of any other caller is refused. \<open>updateUserRole(userId, role)\<close> has no
  parameter for the caller and no check: in a database that satisfies the schema and
  whose users are all employees, the call makes \<open>u2\<close> an admin.
\<close>

theorem C4_role_change_counterexample:
  "schemaOk noAdminDb
 \<and> map u_role (users noAdminDb) = [Some ''employee'', Some ''employee'']
 \<and> userRole ''u2'' (snd (updateUserRole ''u2'' ''admin'' 5 noAdminDb)) = ''admin''"
proof (intro conjI)
  show "schemaOk noAdminDb"
    by (rule sample_schemaOk)
  show "map u_role (users noAdminDb) = [Some ''employee'', Some ''employee'']"
    by (simp add: noAdminDb_def sampleUser_def)
  show "userRole ''u2'' (snd (updateUserRole ''u2'' ''admin'' 5 noAdminDb)) = ''admin''"
    by code_simp
qed

text \<open>
  Claim C4, as the code has it. \<open>updateUserRole\<close> takes the id of the target and the new
  role, and nothing about the caller. For a role that the column \<open>role varchar(50)\<close>
  takes as it is (at most 50 characters, none of them NUL) and an id without NUL: when a
  user row carries the id, the call returns the row with the role set to the given
  string and stores it; when no row carries the id, the call returns \<open>undefined\<close> and
  nothing changes. The rows of all other users, and all other tables, stay as they were.
\<close>

theorem C4_updateUserRole_sets_the_role:
  assumes "plain userId" and "plain role" and "length role \<le> 50"
  shows "(getUser userId s = Some u \<longrightarrow>
            fst (updateUserRole userId role now s)
              = Returned (Some (u\<lparr>u_role := Some role, u_updatedAt := Some now\<rparr>))
            \<and> getUser userId (snd (updateUserRole userId role now s))
              = Some (u\<lparr>u_role := Some role, u_updatedAt := Some now\<rparr>))
       \<and> (getUser userId s = None \<longrightarrow> updateUserRole userId role now s = (Returned None, s))
       \<and> (otherId \<noteq> userId \<longrightarrow>
            getUser otherId (snd (updateUserRole userId role now s)) = getUser otherId s)
       \<and> (snd (updateUserRole userId role now s))\<lparr>users := users s\<rparr> = s"
proof -
  let ?st = "\<lambda>u. u\<lparr>u_role := Some role, u_updatedAt := Some now\<rparr>"
  let ?c = "\<lambda>u. u_id u = userId"
  have run: "updateUserRole userId role now s
             = (Returned (firstRow (returning ?c ?st (users s))),
                s\<lparr>users := updateWhere ?c ?st (users s)\<rparr>)"
    using assms by (simp add: updateUserRole_def role_accepted Let_def)
  have key: "\<And>r. u_id (?st r) = u_id r" by simp
  note upd = filter_key_updateWhere[of u_id ?st, OF key]
  show ?thesis
  proof (intro conjI impI)
    show "fst (updateUserRole userId role now s) = Returned (Some (?st u))"
      if "getUser userId s = Some u"
      using that by (simp add: run getUser_def returning_def firstRow_map)
    show "getUser userId (snd (updateUserRole userId role now s)) = Some (?st u)"
      if "getUser userId s = Some u"
      using that by (simp add: run getUser_def upd firstRow_map)
    show "updateUserRole userId role now s = (Returned None, s)"
      if "getUser userId s = None"
    proof -
      from that have e: "filter ?c (users s) = []"
        by (simp add: getUser_def firstRow_def split: list.splits)
      then show ?thesis
        by (simp add: run returning_def firstRow_def updateWhere_none)
    qed
    show "getUser otherId (snd (updateUserRole userId role now s)) = getUser otherId s"
      if "otherId \<noteq> userId"
      using that by (simp add: run getUser_def upd)
    show "(snd (updateUserRole userId role now s))\<lparr>users := users s\<rparr> = s"
      by (simp add: run)
  qed
qed

text \<open>At the database without administrator: the target \<open>u2\<close>, the bystander \<open>u1\<close>.\<close>

theorem C4_updateUserRole_sets_the_role_witness:
  "plain ''u2'' \<and> plain ''ghost'' \<and> plain ''admin'' \<and> length ''admin'' \<le> 50
 \<and> getUser ''u2'' noAdminDb = Some (sampleUser ''u2'' (Some ''employee''))
 \<and> getUser ''u2'' (snd (updateUserRole ''u2'' ''admin'' 5 noAdminDb))
     = Some ((sampleUser ''u2'' (Some ''employee''))\<lparr>u_role := Some ''admin'', u_updatedAt := Some 5\<rparr>)
 \<and> getUser ''u1'' (snd (updateUserRole ''u2'' ''admin'' 5 noAdminDb)) = getUser ''u1'' noAdminDb
 \<and> getUser ''ghost'' noAdminDb = None
 \<and> updateUserRole ''ghost'' ''admin'' 5 noAdminDb = (Returned None, noAdminDb)"
proof -
  have p: "plain ''u2''" "plain ''ghost''" "plain ''admin''" "length ''admin'' \<le> 50"
    by (simp_all add: plain_def)
  have h: "getUser ''u2'' noAdminDb = Some (sampleUser ''u2'' (Some ''employee''))"
          "getUser ''ghost'' noAdminDb = None" "''u1'' \<noteq> ''u2''"
    by (simp_all add: noAdminDb_def getUser_def firstRow_def sampleUser_def)
  from p h C4_updateUserRole_sets_the_role
             [OF p(1) p(3) p(4), of noAdminDb "sampleUser ''u2'' (Some ''employee'')" 5 "''u1''"]
           C4_updateUserRole_sets_the_role
             [OF p(2) p(3) p(4), of noAdminDb "sampleUser ''u2'' (Some ''employee'')" 5 "''u1''"]
  show ?thesis by blast
qed

section \<open>Own time entries\<close>

text \<open>
  Claim C6 says that updating or deleting a time entry of another user yields
  \<open>Deny("out_of_scope")\<close>. The methods add the owner to the \<open>where\<close> clause instead, so the
  statement matches no row: at the sample database the employee \<open>u1\<close> gets \<open>undefined\<close>
  (\<open>false\<close> for the deletion) for the entry \<open>te2\<close> of \<open>u2\<close>, which is what the id of no entry
  at all gives.
\<close>

theorem C6_foreign_entry_counterexample:
  "schemaOk sampleDb
 \<and> userRole ''u1'' sampleDb = ''employee''
 \<and> updateTimeEntry ''te2'' longerEntry ''u1'' 5 sampleDb = (Returned None, sampleDb)
 \<and> updateTimeEntry ''nope'' longerEntry ''u1'' 5 sampleDb = (Returned None, sampleDb)
 \<and> deleteTimeEntry ''te2'' ''u1'' sampleDb = (Returned False, sampleDb)
 \<and> deleteTimeEntry ''nope'' ''u1'' sampleDb = (Returned False, sampleDb)"
proof -
  have r: "userRole ''u1'' sampleDb = ''employee''"
    by (simp add: sample_roles)
  have t: "timeEntries sampleDb = [sampleEntry ''te1'' ''u1'', sampleEntry ''te2'' ''u2'']"
    by (simp add: sampleDb_def)
  have f: "checkedTimeEntry longerEntry = Returned longerEntry"
    by (rule fits_checkedTimeEntry) (simp add: fitsTimeEntry_def longerEntry_def)
  have u: "updateTimeEntry ''te2'' longerEntry ''u1'' 5 sampleDb = (Returned None, sampleDb)"
          "updateTimeEntry ''nope'' longerEntry ''u1'' 5 sampleDb = (Returned None, sampleDb)"
    by (simp_all add: updateTimeEntry_def r t f Let_def returning_def updateWhere_def firstRow_def
                      sampleEntry_def)
  have d: "deleteTimeEntry ''te2'' ''u1'' sampleDb = (Returned False, sampleDb)"
          "deleteTimeEntry ''nope'' ''u1'' sampleDb = (Returned False, sampleDb)"
    by (simp_all add: deleteTimeEntry_def r t Let_def deleteWhere_def sampleEntry_def)
  from r u d sample_schemaOk(1) show ?thesis by simp
qed

text \<open>
  Claim C6, as the code has it. Take a caller whose role is neither \<open>admin\<close> nor
  \<open>project_manager\<close> (so an \<open>employee\<close> or a \<open>manager\<close>), a stored time entry, the ids of
  the entries being unique, and a patch whose values the columns of \<open>time_entries\<close> take
  as they are (no NUL, a date of the calendar written \<open>YYYY-MM-DD\<close>, times of at most five
  characters, a duration below 1000 hours); the ids of the request hold no NUL.
  When the caller owns the entry: the update returns the patched row and stores it,
  provided the user, project and task that the patch names exist; the deletion returns
  \<open>true\<close> and removes the entry. When the owner is another user: the update returns
  \<open>undefined\<close>, the deletion returns \<open>false\<close>, and the database is unchanged. An id that no
  entry carries gives the same two results, and likewise changes nothing.
\<close>

theorem C6_own_time_entries_only:
  assumes "userRole userId s \<notin> set [''admin'', ''project_manager'']"
      and "distinct (map te_id (timeEntries s))"
      and "e \<in> set (timeEntries s)"
      and "fitsTimeEntry entry"
      and "plain userId" and "plain ident"
  shows "(te_userId e = userId \<and> referencesResolve entry s \<longrightarrow>
            fst (updateTimeEntry (te_id e) entry userId now s)
              = Returned (Some (setTimeEntry entry now e))
          \<and> setTimeEntry entry now e
              \<in> set (timeEntries (snd (updateTimeEntry (te_id e) entry userId now s))))
       \<and> (te_userId e \<noteq> userId \<longrightarrow>
            updateTimeEntry (te_id e) entry userId now s = (Returned None, s))
       \<and> (te_userId e = userId \<longrightarrow>
            fst (deleteTimeEntry (te_id e) userId s) = Returned True
          \<and> e \<notin> set (timeEntries (snd (deleteTimeEntry (te_id e) userId s))))
       \<and> (te_userId e \<noteq> userId \<longrightarrow>
            deleteTimeEntry (te_id e) userId s = (Returned False, s))
       \<and> (ident \<notin> set (map te_id (timeEntries s)) \<longrightarrow>
            updateTimeEntry ident entry userId now s = (Returned None, s)
          \<and> deleteTimeEntry ident userId s = (Returned False, s))"
proof -
  let ?c = "\<lambda>x. te_id x = te_id e \<and> te_userId x = userId"
  let ?n = "\<lambda>x. te_id x = ident \<and> te_userId x = userId"
  note f = filter_own_entry[OF assms(2) assms(3), of userId]
  note v = fits_checkedTimeEntry[OF assms(4)]
  have upd: "updateTimeEntry (te_id e) entry userId now s
             = (Returned (firstRow (returning ?c (setTimeEntry entry now) (timeEntries s))),
                s\<lparr>timeEntries := updateWhere ?c (setTimeEntry entry now) (timeEntries s)\<rparr>)"
    if "filter ?c (timeEntries s) = [] \<or> referencesResolve entry s"
    using assms(1) that by (auto simp: updateTimeEntry_def v Let_def resolve_referenceError)
  have del: "\<And>i. deleteTimeEntry i userId s
             = (Returned (0 < length (filter (\<lambda>x. te_id x = i \<and> te_userId x = userId) (timeEntries s))),
                s\<lparr>timeEntries := deleteWhere (\<lambda>x. te_id x = i \<and> te_userId x = userId) (timeEntries s)\<rparr>)"
    using assms(1) by (simp add: deleteTimeEntry_def Let_def)
  show ?thesis
  proof (intro conjI impI)
    assume own: "te_userId e = userId \<and> referencesResolve entry s"
    then have u: "updateTimeEntry (te_id e) entry userId now s
             = (Returned (firstRow (returning ?c (setTimeEntry entry now) (timeEntries s))),
                s\<lparr>timeEntries := updateWhere ?c (setTimeEntry entry now) (timeEntries s)\<rparr>)"
      by (intro upd) simp
    show "fst (updateTimeEntry (te_id e) entry userId now s)
            = Returned (Some (setTimeEntry entry now e))"
      using own f by (simp add: u returning_def firstRow_def)
    show "setTimeEntry entry now e
            \<in> set (timeEntries (snd (updateTimeEntry (te_id e) entry userId now s)))"
      using own assms(3) by (simp add: u updateWhere_member)
  next
    assume own: "te_userId e = userId"
    show "fst (deleteTimeEntry (te_id e) userId s) = Returned True"
      using own f by (simp add: del)
    show "e \<notin> set (timeEntries (snd (deleteTimeEntry (te_id e) userId s)))"
      using own by (simp add: del deleteWhere_member)
  next
    assume other: "te_userId e \<noteq> userId"
    with f have n: "filter ?c (timeEntries s) = []" by simp
    show "updateTimeEntry (te_id e) entry userId now s = (Returned None, s)"
      using n by (simp add: upd returning_def firstRow_def updateWhere_none)
    show "deleteTimeEntry (te_id e) userId s = (Returned False, s)"
      using n by (simp add: del deleteWhere_none)
  next
    assume none: "ident \<notin> set (map te_id (timeEntries s))"
    then have n: "filter ?n (timeEntries s) = []"
      by (auto simp: filter_empty_conv)
    have "updateTimeEntry ident entry userId now s
             = (Returned (firstRow (returning ?n (setTimeEntry entry now) (timeEntries s))),
                s\<lparr>timeEntries := updateWhere ?n (setTimeEntry entry now) (timeEntries s)\<rparr>)"
      using assms(1) n by (simp add: updateTimeEntry_def v Let_def)
    then show "updateTimeEntry ident entry userId now s = (Returned None, s)"
      using n by (simp add: returning_def firstRow_def updateWhere_none)
    show "deleteTimeEntry ident userId s = (Returned False, s)"
      using n by (simp add: del deleteWhere_none)
  qed
qed

text \<open>
  At the sample database: \<open>u1\<close> on the own entry \<open>te1\<close>, on the entry \<open>te2\<close> of \<open>u2\<close> and on
  the id \<open>nope\<close> of no entry.
\<close>

theorem C6_own_time_entries_only_witness:
  "userRole ''u1'' sampleDb \<notin> set [''admin'', ''project_manager'']
 \<and> distinct (map te_id (timeEntries sampleDb))
 \<and> sampleEntry ''te1'' ''u1'' \<in> set (timeEntries sampleDb)
 \<and> sampleEntry ''te2'' ''u2'' \<in> set (timeEntries sampleDb)
 \<and> fitsTimeEntry longerEntry \<and> referencesResolve longerEntry sampleDb
 \<and> plain ''u1'' \<and> plain ''nope''
 \<and> ''nope'' \<notin> set (map te_id (timeEntries sampleDb))
 \<and> fst (updateTimeEntry ''te1'' longerEntry ''u1'' 5 sampleDb)
     = Returned (Some (setTimeEntry longerEntry 5 (sampleEntry ''te1'' ''u1'')))
 \<and> fst (deleteTimeEntry ''te1'' ''u1'' sampleDb) = Returned True
 \<and> updateTimeEntry ''te2'' longerEntry ''u1'' 5 sampleDb = (Returned None, sampleDb)
 \<and> deleteTimeEntry ''te2'' ''u1'' sampleDb = (Returned False, sampleDb)
 \<and> updateTimeEntry ''nope'' longerEntry ''u1'' 5 sampleDb = (Returned None, sampleDb)
 \<and> deleteTimeEntry ''nope'' ''u1'' sampleDb = (Returned False, sampleDb)"
proof -
  have h1: "userRole ''u1'' sampleDb \<notin> set [''admin'', ''project_manager'']"
    by (simp add: sample_roles)
  have h2: "distinct (map te_id (timeEntries sampleDb))"
    by (simp add: sampleDb_def sampleEntry_def)
  have h3: "sampleEntry ''te1'' ''u1'' \<in> set (timeEntries sampleDb)"
   and h4: "sampleEntry ''te2'' ''u2'' \<in> set (timeEntries sampleDb)"
    by (simp_all add: sampleDb_def)
  have h5: "fitsTimeEntry longerEntry"
    by (simp add: fitsTimeEntry_def longerEntry_def)
  have h6: "referencesResolve longerEntry sampleDb"
    by (simp add: referencesResolve_def longerEntry_def)
  have h7: "plain ''u1''" and h8: "plain ''nope''"
    by (simp_all add: plain_def)
  have h9: "''nope'' \<notin> set (map te_id (timeEntries sampleDb))"
    by (simp add: sampleDb_def sampleEntry_def)
  have i: "te_id (sampleEntry ''te1'' ''u1'') = ''te1''" "te_userId (sampleEntry ''te1'' ''u1'') = ''u1''"
          "te_id (sampleEntry ''te2'' ''u2'') = ''te2''" "te_userId (sampleEntry ''te2'' ''u2'') \<noteq> ''u1''"
    by (simp_all add: sampleEntry_def)
  from i h6 h9 C6_own_time_entries_only[OF h1 h2 h3 h5 h7 h8, of 5]
              C6_own_time_entries_only[OF h1 h2 h4 h5 h7 h8, of 5]
  have "fst (updateTimeEntry ''te1'' longerEntry ''u1'' 5 sampleDb)
          = Returned (Some (setTimeEntry longerEntry 5 (sampleEntry ''te1'' ''u1'')))
      \<and> fst (deleteTimeEntry ''te1'' ''u1'' sampleDb) = Returned True
      \<and> updateTimeEntry ''te2'' longerEntry ''u1'' 5 sampleDb = (Returned None, sampleDb)
      \<and> deleteTimeEntry ''te2'' ''u1'' sampleDb = (Returned False, sampleDb)
      \<and> updateTimeEntry ''nope'' longerEntry ''u1'' 5 sampleDb = (Returned None, sampleDb)
      \<and> deleteTimeEntry ''nope'' ''u1'' sampleDb = (Returned False, sampleDb)"
    by simp
  with h1 h2 h3 h4 h5 h6 h7 h8 h9 show ?thesis by blast
qed

end
